theory Spec2Isabelle
  imports Main "HOL-Library.Word"
begin

unbundle bit_operations_syntax

section \<open>wtfs inode operations (src/inode.c)\<close>

text \<open>
  The namespace operations \<open>wtfs_create\<close>, \<open>wtfs_lookup\<close>, \<open>wtfs_unlink\<close> and
  \<open>wtfs_mkdir\<close> of \<^verbatim>\<open>src/inode.c\<close>, as functions on an explicit file-system state.
  A \<^verbatim>\<open>struct inode *\<close> is the identifier of the single cached representative of
  that inode (one representative per identifier), so \<^verbatim>\<open>vi->i_ino\<close> is the pointer
  itself; \<^verbatim>\<open>NULL\<close> is \<open>None\<close> where the code admits it. \<^verbatim>\<open>wtfs_debug\<close> only logs.
\<close>

subsection \<open>Data model\<close>

type_synonym ino_t = nat
type_synonym umode_t = "16 word"

text \<open>The file-type bits of a mode, with their POSIX values (octal 0170000, 0100000,
  0040000, 0120000).\<close>

definition S_IFMT :: umode_t where "S_IFMT = 0xF000"
definition S_IFREG :: umode_t where "S_IFREG = 0x8000"
definition S_IFDIR :: umode_t where "S_IFDIR = 0x4000"
definition S_IFLNK :: umode_t where "S_IFLNK = 0xA000"

datatype kind = RegularFile | Directory | SymbolicLink

text \<open>Modelled from the spec: the kind of an inode is derived from its mode; the
  file-type bits select it, and a mode of another type has none of the three kinds.\<close>

definition kind_of_mode :: "umode_t \<Rightarrow> kind option" where
  "kind_of_mode m =
     (if m AND S_IFMT = S_IFREG then Some RegularFile
      else if m AND S_IFMT = S_IFDIR then Some Directory
      else if m AND S_IFMT = S_IFLNK then Some SymbolicLink
      else None)"

text \<open>The error taxonomy; \<open>Fault\<close> is not an error code but the dereference of a
  pointer that names no inode (\<^verbatim>\<open>NULL\<close> or stale).\<close>

datatype error =
  NotFound | Duplicate | NotEmpty | NoSpace | NoFreeInode | NameTooLong
  | InvalidKind | PermissionDenied | InvalidArgument | Corrupt | Fault

text \<open>The payload of an inode: the directory-entry list of a directory, the data blocks
  of a regular file, or the inline target of a symbolic link.\<close>

datatype payload =
  Entries "(string \<times> ino_t) list" | Blocks "nat list" | Target string

record inode =
  i_mode :: umode_t
  i_nlink :: "32 word"
  i_count :: nat
  i_ctime :: nat
  i_payload :: payload

record dentry =
  d_name :: string
  d_inode :: "ino_t option"
  d_hashed :: bool

text \<open>The file system: the store of inodes keyed by identifier, the number of
  identifiers (1 up to \<open>max_inodes\<close>), the free storage blocks, the capacity of a
  directory payload, the bound on a name's length and the current time.\<close>

record wtfs =
  inodes :: "ino_t \<Rightarrow> inode option"
  max_inodes :: nat
  free_blocks :: nat
  max_entries :: nat
  name_max :: nat
  current_time :: nat

definition kind_of :: "wtfs \<Rightarrow> ino_t \<Rightarrow> kind option" where
  "kind_of s i = (case inodes s i of None \<Rightarrow> None | Some v \<Rightarrow> kind_of_mode (i_mode v))"

definition link_count :: "wtfs \<Rightarrow> ino_t \<Rightarrow> 32 word option" where
  "link_count s i = map_option i_nlink (inodes s i)"

definition ctime :: "wtfs \<Rightarrow> ino_t \<Rightarrow> nat option" where
  "ctime s i = map_option i_ctime (inodes s i)"

text \<open>The entries of a directory; \<open>None\<close> when the identifier names no directory.\<close>

definition dir_entries :: "wtfs \<Rightarrow> ino_t \<Rightarrow> (string \<times> ino_t) list option" where
  "dir_entries s dir =
     (case inodes s dir of
        None \<Rightarrow> None
      | Some v \<Rightarrow> (case i_payload v of Entries es \<Rightarrow> Some es | _ \<Rightarrow> None))"

text \<open>The number of directory entries, across all directories, that name an inode.\<close>

definition entries_naming :: "wtfs \<Rightarrow> ino_t \<Rightarrow> nat" where
  "entries_naming s i =
     (\<Sum>d\<leftarrow>[0..<Suc (max_inodes s)].
        case dir_entries s d of
          None \<Rightarrow> 0
        | Some es \<Rightarrow> length (filter (\<lambda>e. snd e = i) es))"

subsection \<open>Directory entry store\<close>

text \<open>Modelled from the spec: \<^verbatim>\<open>wtfs_find_dentry\<close> is not in \<^verbatim>\<open>src/inode.c\<close>.
  \<open>find(dir, name)\<close> scans the payload of \<open>dir\<close> for a matching name and returns the
  first match; the caller reads the identifier 0 as not-found.\<close>

definition wtfs_find_dentry :: "wtfs \<Rightarrow> ino_t \<Rightarrow> string \<Rightarrow> ino_t" where
  "wtfs_find_dentry s dir name =
     (case dir_entries s dir of
        None \<Rightarrow> 0
      | Some es \<Rightarrow> (case map_of es name of None \<Rightarrow> 0 | Some i \<Rightarrow> i))"

text \<open>Modelled from the spec: \<^verbatim>\<open>wtfs_add_dentry\<close> is not in \<^verbatim>\<open>src/inode.c\<close>.
  \<open>add(dir, inode_id, name)\<close> appends a record; it fails with \<open>NameTooLong\<close>, with
  \<open>Duplicate\<close> if the name already exists, and with \<open>NoSpace\<close> if the payload has no
  room. A failed add leaves the state as it was. An inode that is absent, or is no
  directory, takes no entry.\<close>

definition wtfs_add_dentry ::
  "wtfs \<Rightarrow> ino_t \<Rightarrow> ino_t \<Rightarrow> string \<Rightarrow> nat \<Rightarrow> (error + unit) \<times> wtfs" where
  "wtfs_add_dentry s dir ino name len =
     (case inodes s dir of
        None \<Rightarrow> (Inl NotFound, s)
      | Some v \<Rightarrow>
          (case i_payload v of
             Entries es \<Rightarrow>
               if name_max s < len then (Inl NameTooLong, s)
               else if name \<in> fst ` set es then (Inl Duplicate, s)
               else if max_entries s \<le> length es then (Inl NoSpace, s)
               else (Inr (),
                     s\<lparr>inodes := (inodes s)
                          (dir \<mapsto> v\<lparr>i_payload := Entries (es @ [(name, ino)])\<rparr>)\<rparr>)
           | _ \<Rightarrow> (Inl InvalidKind, s)))"

text \<open>Deleting the first record of a name, as \<open>find\<close> returns the first match.\<close>

fun remove_entry :: "string \<Rightarrow> (string \<times> ino_t) list \<Rightarrow> (string \<times> ino_t) list" where
  "remove_entry name [] = []"
| "remove_entry name (e # es) = (if fst e = name then es else e # remove_entry name es)"

text \<open>Modelled from the spec: \<^verbatim>\<open>wtfs_delete_dentry\<close> is not in \<^verbatim>\<open>src/inode.c\<close>.
  \<open>remove(dir, name)\<close> deletes the matching record and fails with \<open>NotFound\<close> when
  there is none; a failed remove leaves the state as it was.\<close>

definition wtfs_delete_dentry :: "wtfs \<Rightarrow> ino_t \<Rightarrow> string \<Rightarrow> (error + unit) \<times> wtfs" where
  "wtfs_delete_dentry s dir name =
     (case inodes s dir of
        None \<Rightarrow> (Inl NotFound, s)
      | Some v \<Rightarrow>
          (case i_payload v of
             Entries es \<Rightarrow>
               if name \<in> fst ` set es
               then (Inr (),
                     s\<lparr>inodes := (inodes s)
                          (dir \<mapsto> v\<lparr>i_payload := Entries (remove_entry name es)\<rparr>)\<rparr>)
               else (Inl NotFound, s)
           | _ \<Rightarrow> (Inl NotFound, s)))"

subsection \<open>Inode allocator and cache\<close>

text \<open>Modelled from the spec: the allocator behind \<open>new_inode\<close> is not in
  \<^verbatim>\<open>src/inode.c\<close>. It reserves a fresh, non-zero identifier: the lowest of
  1 .. \<open>max_inodes\<close> that names no inode.\<close>

definition wtfs_alloc_ino :: "wtfs \<Rightarrow> ino_t option" where
  "wtfs_alloc_ino s = List.find (\<lambda>i. inodes s i = None) [1..<Suc (max_inodes s)]"

text \<open>Modelled from the spec: the payload \<open>new_inode\<close> seeds, by the kind the mode
  gives: empty for files and directories, the inline data for a symbolic link.\<close>

definition seed_payload :: "umode_t \<Rightarrow> string option \<Rightarrow> nat \<Rightarrow> payload" where
  "seed_payload mode path len =
     (if mode AND S_IFMT = S_IFDIR then Entries []
      else if mode AND S_IFMT = S_IFLNK
        then Target (case path of None \<Rightarrow> [] | Some p \<Rightarrow> take len p)
      else Blocks [])"

text \<open>Modelled from the spec: \<^verbatim>\<open>wtfs_new_inode\<close> is not in \<^verbatim>\<open>src/inode.c\<close>.
  \<open>new_inode(parent, mode, inline_data)\<close> reserves a fresh identifier and writes an
  initial record with \<open>link_count = 0\<close>, the kind derived from the mode and the payload
  seeded from the inline data; it fails with \<open>NoFreeInode\<close> or \<open>NoSpace\<close>. The caller
  holds the one reference to the new inode.\<close>

definition wtfs_new_inode ::
  "wtfs \<Rightarrow> ino_t \<Rightarrow> umode_t \<Rightarrow> string option \<Rightarrow> nat \<Rightarrow> (error + ino_t) \<times> wtfs" where
  "wtfs_new_inode s dir mode path len =
     (case wtfs_alloc_ino s of
        None \<Rightarrow> (Inl NoFreeInode, s)
      | Some ino \<Rightarrow>
          if free_blocks s = 0 then (Inl NoSpace, s)
          else (Inr ino,
                s\<lparr>inodes := (inodes s)
                     (ino \<mapsto> \<lparr>i_mode = mode, i_nlink = 0, i_count = 1,
                              i_ctime = current_time s,
                              i_payload = seed_payload mode path len\<rparr>),
                  free_blocks := free_blocks s - 1\<rparr>))"

text \<open>Modelled from the spec: \<^verbatim>\<open>wtfs_iget\<close> is not in \<^verbatim>\<open>src/inode.c\<close>.
  \<open>get(id)\<close> returns the single cached representative of \<open>id\<close>, taking a reference
  to it, and fails with \<open>NotFound\<close> when there is no such inode.\<close>

definition wtfs_iget :: "wtfs \<Rightarrow> ino_t \<Rightarrow> (error + ino_t) \<times> wtfs" where
  "wtfs_iget s ino =
     (case inodes s ino of
        None \<Rightarrow> (Inl NotFound, s)
      | Some v \<Rightarrow> (Inr ino, s\<lparr>inodes := (inodes s)(ino \<mapsto> v\<lparr>i_count := i_count v + 1\<rparr>)\<rparr>))"

text \<open>Modelled from the spec: the release path is not in \<^verbatim>\<open>src/inode.c\<close>.
  \<open>release(id)\<close> frees the inode's slot, with its payload and storage, for reuse by
  \<open>new_inode\<close>.\<close>

definition release :: "wtfs \<Rightarrow> ino_t \<Rightarrow> wtfs" where
  "release s ino = s\<lparr>inodes := (inodes s)(ino := None), free_blocks := free_blocks s + 1\<rparr>"

text \<open>Modelled from the spec: \<^verbatim>\<open>iput\<close> belongs to the surrounding kernel. It drops one
  reference; an inode is released once its link count is zero and no reference
  remains.\<close>

definition iput :: "wtfs \<Rightarrow> ino_t \<Rightarrow> wtfs" where
  "iput s vi =
     (case inodes s vi of
        None \<Rightarrow> s
      | Some v \<Rightarrow>
          if i_count v - 1 = 0 \<and> i_nlink v = 0 then release s vi
          else s\<lparr>inodes := (inodes s)(vi \<mapsto> v\<lparr>i_count := i_count v - 1\<rparr>)\<rparr>)"

text \<open>The kernel's link-count and dentry primitives: \<^verbatim>\<open>i_nlink\<close> is an
  \<^verbatim>\<open>unsigned int\<close>; \<^verbatim>\<open>d_instantiate\<close> binds a dentry to an inode, \<^verbatim>\<open>d_add\<close> binds and
  hashes it (a negative dentry when the inode is \<^verbatim>\<open>NULL\<close>).\<close>

definition inode_inc_link_count :: "wtfs \<Rightarrow> ino_t \<Rightarrow> wtfs" where
  "inode_inc_link_count s vi =
     (case inodes s vi of
        None \<Rightarrow> s
      | Some v \<Rightarrow> s\<lparr>inodes := (inodes s)(vi \<mapsto> v\<lparr>i_nlink := i_nlink v + 1\<rparr>)\<rparr>)"

definition inode_dec_link_count :: "wtfs \<Rightarrow> ino_t \<Rightarrow> wtfs" where
  "inode_dec_link_count s vi =
     (case inodes s vi of
        None \<Rightarrow> s
      | Some v \<Rightarrow> s\<lparr>inodes := (inodes s)(vi \<mapsto> v\<lparr>i_nlink := i_nlink v - 1\<rparr>)\<rparr>)"

definition d_instantiate :: "dentry \<Rightarrow> ino_t \<Rightarrow> dentry" where
  "d_instantiate dentry vi = dentry\<lparr>d_inode := Some vi\<rparr>"

definition d_add :: "dentry \<Rightarrow> ino_t option \<Rightarrow> dentry" where
  "d_add dentry vi = dentry\<lparr>d_inode := vi, d_hashed := True\<rparr>"

subsection \<open>Namespace operations\<close>

text \<open>\<^verbatim>\<open>wtfs_create\<close>: a new inode of mode \<^verbatim>\<open>mode | S_IFREG\<close>, an entry for it in
  \<open>dir\<close> (the inode is put back if that fails), then the link count and the dentry.
  \<open>excl\<close> is not read.\<close>

definition wtfs_create ::
  "wtfs \<Rightarrow> ino_t \<Rightarrow> dentry \<Rightarrow> umode_t \<Rightarrow> bool \<Rightarrow> (error + unit) \<times> dentry \<times> wtfs" where
  "wtfs_create s dir dentry mode excl =
     (case wtfs_new_inode s dir (mode OR S_IFREG) None 0 of
        (Inl e, s1) \<Rightarrow> (Inl e, dentry, s1)
      | (Inr vi, s1) \<Rightarrow>
          (case wtfs_add_dentry s1 dir vi (d_name dentry) (length (d_name dentry)) of
             (Inl e, s2) \<Rightarrow> (Inl e, dentry, iput s2 vi)
           | (Inr _, s2) \<Rightarrow>
               (Inr (), d_instantiate dentry vi, inode_inc_link_count s2 vi)))"

text \<open>\<^verbatim>\<open>wtfs_lookup\<close>: the dentry is bound by \<^verbatim>\<open>d_add\<close> whether or not the name was
  found; only a failing \<^verbatim>\<open>wtfs_iget\<close> returns an error, before \<^verbatim>\<open>d_add\<close>.\<close>

definition wtfs_lookup ::
  "wtfs \<Rightarrow> ino_t \<Rightarrow> dentry \<Rightarrow> 32 word \<Rightarrow> (error + unit) \<times> dentry \<times> wtfs" where
  "wtfs_lookup s dir dentry flags =
     (let ino = wtfs_find_dentry s dir (d_name dentry) in
      if ino \<noteq> 0 then
        (case wtfs_iget s ino of
           (Inl e, s1) \<Rightarrow> (Inl e, dentry, s1)
         | (Inr vi, s1) \<Rightarrow> (Inr (), d_add dentry (Some vi), s1))
      else (Inr (), d_add dentry None, s))"

text \<open>\<^verbatim>\<open>wtfs_unlink\<close>: the target is the inode bound to the dentry. After the entry is
  deleted the target takes the directory's ctime and loses one link.\<close>

definition wtfs_unlink :: "wtfs \<Rightarrow> ino_t \<Rightarrow> dentry \<Rightarrow> (error + unit) \<times> wtfs" where
  "wtfs_unlink s dir dentry =
     (case wtfs_delete_dentry s dir (d_name dentry) of
        (Inl e, s1) \<Rightarrow> (Inl e, s1)
      | (Inr _, s1) \<Rightarrow>
          (case (d_inode dentry, inodes s1 dir) of
             (Some vi, Some d) \<Rightarrow>
               (case inodes s1 vi of
                  None \<Rightarrow> (Inl Fault, s1)
                | Some v \<Rightarrow>
                    (Inr (),
                     inode_dec_link_count
                       (s1\<lparr>inodes := (inodes s1)(vi \<mapsto> v\<lparr>i_ctime := i_ctime d\<rparr>)\<rparr>) vi))
           | _ \<Rightarrow> (Inl Fault, s1)))"

text \<open>\<^verbatim>\<open>wtfs_mkdir\<close>: a new inode of mode \<^verbatim>\<open>mode | S_IFDIR\<close>, the entries \<open>.\<close> and
  \<open>..\<close> in the new inode, an entry for it in \<open>dir\<close> (the inode is put back if any of
  the three fails), then the link count and the dentry.\<close>

definition wtfs_mkdir ::
  "wtfs \<Rightarrow> ino_t \<Rightarrow> dentry \<Rightarrow> umode_t \<Rightarrow> (error + unit) \<times> dentry \<times> wtfs" where
  "wtfs_mkdir s dir dentry mode =
     (case wtfs_new_inode s dir (mode OR S_IFDIR) None 0 of
        (Inl e, s1) \<Rightarrow> (Inl e, dentry, s1)
      | (Inr vi, s1) \<Rightarrow>
          (case wtfs_add_dentry s1 vi vi ''.'' 1 of
             (Inl e, s2) \<Rightarrow> (Inl e, dentry, iput s2 vi)
           | (Inr _, s2) \<Rightarrow>
               (case wtfs_add_dentry s2 vi dir ''..'' 2 of
                  (Inl e, s3) \<Rightarrow> (Inl e, dentry, iput s3 vi)
                | (Inr _, s3) \<Rightarrow>
                    (case wtfs_add_dentry s3 dir vi (d_name dentry)
                            (length (d_name dentry)) of
                       (Inl e, s4) \<Rightarrow> (Inl e, dentry, iput s4 vi)
                     | (Inr _, s4) \<Rightarrow>
                         (Inr (), d_instantiate dentry vi,
                          inode_inc_link_count s4 vi)))))"

subsection \<open>Sample states\<close>

text \<open>A file system holding only its root directory (inode 1, mode 040755), with room
  for four entries per directory; the same with a subdirectory \<open>sub\<close> (inode 2); and
  the same with an entry \<open>ghost\<close> whose inode 3 does not exist.\<close>

definition root_dir :: inode where
  "root_dir = \<lparr>i_mode = 0x41ED, i_nlink = 1, i_count = 1, i_ctime = 5,
                i_payload = Entries [(''.'', 1), (''..'', 1)]\<rparr>"

definition fs_root :: wtfs where
  "fs_root = \<lparr>inodes = [1 \<mapsto> root_dir], max_inodes = 4, free_blocks = 3,
               max_entries = 4, name_max = 8, current_time = 7\<rparr>"

definition fs_sub :: wtfs where
  "fs_sub = fs_root\<lparr>inodes :=
     [1 \<mapsto> root_dir\<lparr>i_payload := Entries [(''.'', 1), (''..'', 1), (''sub'', 2)]\<rparr>,
      2 \<mapsto> \<lparr>i_mode = 0x41ED, i_nlink = 1, i_count = 1, i_ctime = 3,
             i_payload = Entries [(''.'', 2), (''..'', 1)]\<rparr>]\<rparr>"

definition fs_ghost :: wtfs where
  "fs_ghost = fs_root\<lparr>inodes :=
     [1 \<mapsto> root_dir\<lparr>i_payload := Entries [(''.'', 1), (''..'', 1), (''ghost'', 3)]\<rparr>]\<rparr>"

definition new_dentry :: "string \<Rightarrow> dentry" where
  "new_dentry name = \<lparr>d_name = name, d_inode = None, d_hashed = False\<rparr>"

lemmas mode_defs = S_IFMT_def S_IFREG_def S_IFDIR_def S_IFLNK_def kind_of_mode_def

lemmas state_defs = root_dir_def fs_root_def fs_sub_def fs_ghost_def new_dentry_def

lemmas helper_defs =
  dir_entries_def kind_of_def link_count_def ctime_def
  wtfs_find_dentry_def wtfs_add_dentry_def wtfs_delete_dentry_def
  wtfs_alloc_ino_def seed_payload_def wtfs_new_inode_def wtfs_iget_def
  release_def iput_def inode_inc_link_count_def inode_dec_link_count_def
  d_instantiate_def d_add_def upt_conv_Cons

section \<open>Properties\<close>

subsection \<open>Facts about the helpers\<close>

lemma alloc_ino_fresh:
  "wtfs_alloc_ino s = Some i \<Longrightarrow> inodes s i = None \<and> i \<noteq> 0 \<and> i \<le> max_inodes s"
  by (auto simp: wtfs_alloc_ino_def find_Some_iff nth_upt simp del: upt_Suc)

lemma new_inode_success:
  assumes "wtfs_new_inode s dir mode path len = (Inr vi, s1)"
  shows "inodes s vi = None" and "vi \<noteq> 0" and "0 < free_blocks s"
    and "s1 = s\<lparr>inodes := (inodes s)
                  (vi \<mapsto> \<lparr>i_mode = mode, i_nlink = 0, i_count = 1,
                           i_ctime = current_time s,
                           i_payload = seed_payload mode path len\<rparr>),
               free_blocks := free_blocks s - 1\<rparr>"
    and "vi \<le> max_inodes s"
  using assms alloc_ino_fresh [of s]
  by (auto simp: wtfs_new_inode_def split: option.splits if_splits)

lemma new_inode_failure:
  "wtfs_new_inode s dir mode path len = (Inl e, s1) \<Longrightarrow>
     s1 = s \<and> (e = NoFreeInode \<or> e = NoSpace)"
  by (auto simp: wtfs_new_inode_def split: option.splits if_splits)

lemma add_dentry_failure:
  "wtfs_add_dentry s dir ino name len = (Inl e, s') \<Longrightarrow> s' = s"
  by (auto simp: wtfs_add_dentry_def split: option.splits payload.splits if_splits)

lemma add_dentry_success:
  assumes "wtfs_add_dentry s dir ino name len = (Inr u, s')"
  shows "\<exists>v es. inodes s dir = Some v \<and> i_payload v = Entries es \<and>
           name \<notin> fst ` set es \<and>
           s' = s\<lparr>inodes := (inodes s)
                    (dir \<mapsto> v\<lparr>i_payload := Entries (es @ [(name, ino)])\<rparr>)\<rparr>"
  using assms
  by (auto simp: wtfs_add_dentry_def split: option.splits payload.splits if_splits)

lemma delete_dentry_failure:
  "wtfs_delete_dentry s dir name = (Inl e, s') \<Longrightarrow> s' = s"
  by (auto simp: wtfs_delete_dentry_def split: option.splits payload.splits if_splits)

lemma find_dentry_absent:
  "dir_entries s dir = Some es \<Longrightarrow> name \<notin> fst ` set es \<Longrightarrow>
     wtfs_find_dentry s dir name = 0"
proof -
  assume "dir_entries s dir = Some es" and "name \<notin> fst ` set es"
  moreover from this have "map_of es name = None"
    by (simp add: map_of_eq_None_iff)
  ultimately show ?thesis
    by (simp add: wtfs_find_dentry_def)
qed

lemma seed_payload_Entries:
  "seed_payload mode path len = Entries es \<Longrightarrow> es = []"
  by (simp add: seed_payload_def split: if_splits)

lemma iput_rollback:
  assumes "inodes s vi = None" and "0 < free_blocks s"
      and "i_nlink v = 0" and "i_count v = 1"
  shows "iput (s\<lparr>inodes := (inodes s)(vi \<mapsto> v),
                 free_blocks := free_blocks s - 1\<rparr>) vi = s"
proof -
  have "(inodes s)(vi := None) = inodes s"
    using assms(1) by (simp add: fun_upd_idem)
  then show ?thesis
    using assms(2-4) by (simp add: iput_def release_def)
qed

lemma add_dentry_self:
  assumes "wtfs_add_dentry (s\<lparr>inodes := (inodes s)(vi \<mapsto> v), free_blocks := fb\<rparr>)
             vi ino name len = (Inr u, s')"
  shows "\<exists>es. i_payload v = Entries es \<and>
           s' = s\<lparr>inodes := (inodes s)
                     (vi \<mapsto> v\<lparr>i_payload := Entries (es @ [(name, ino)])\<rparr>),
                  free_blocks := fb\<rparr>"
  using add_dentry_success [OF assms] by auto

text \<open>What a successful mkdir and a successful create leave behind.\<close>

lemma wtfs_mkdir_success:
  assumes ok: "wtfs_mkdir s dir dentry mode = (Inr u, dentry', s')"
      and dir: "inodes s dir = Some d"
  shows "\<exists>vi es. inodes s vi = None \<and> vi \<noteq> 0 \<and> vi \<noteq> dir \<and> vi \<le> max_inodes s \<and>
           dentry' = d_instantiate dentry vi \<and>
           i_payload d = Entries es \<and> d_name dentry \<notin> fst ` set es \<and>
           s' = s\<lparr>inodes := (inodes s)
                    (dir \<mapsto> d\<lparr>i_payload := Entries (es @ [(d_name dentry, vi)])\<rparr>,
                     vi \<mapsto> \<lparr>i_mode = mode OR S_IFDIR, i_nlink = 1, i_count = 1,
                            i_ctime = current_time s,
                            i_payload = Entries [(''.'', vi), (''..'', dir)]\<rparr>),
                  free_blocks := free_blocks s - 1\<rparr>"
proof -
  from ok obtain vi s1 s2 s3 s4 where
    new: "wtfs_new_inode s dir (mode OR S_IFDIR) None 0 = (Inr vi, s1)" and
    a1: "wtfs_add_dentry s1 vi vi ''.'' 1 = (Inr (), s2)" and
    a2: "wtfs_add_dentry s2 vi dir ''..'' 2 = (Inr (), s3)" and
    a3: "wtfs_add_dentry s3 dir vi (d_name dentry) (length (d_name dentry)) = (Inr (), s4)" and
    d': "dentry' = d_instantiate dentry vi" and
    s': "s' = inode_inc_link_count s4 vi"
    by (auto simp: wtfs_mkdir_def split: prod.splits sum.splits)
  note fresh = new_inode_success [OF new]
  have ne: "vi \<noteq> dir"
    using fresh(1) dir by auto
  define v0 where "v0 = \<lparr>i_mode = mode OR S_IFDIR, i_nlink = 0, i_count = 1,
      i_ctime = current_time s, i_payload = seed_payload (mode OR S_IFDIR) None 0\<rparr>"
  have s1: "s1 = s\<lparr>inodes := (inodes s)(vi \<mapsto> v0), free_blocks := free_blocks s - 1\<rparr>"
    using fresh(4) by (simp add: v0_def)
  from a1 obtain es1 where
    p0: "i_payload v0 = Entries es1" and
    s2: "s2 = s\<lparr>inodes := (inodes s)
            (vi \<mapsto> v0\<lparr>i_payload := Entries (es1 @ [(''.'', vi)])\<rparr>),
          free_blocks := free_blocks s - 1\<rparr>"
    unfolding s1 by (auto dest: add_dentry_self)
  have es1: "es1 = []"
    using p0 by (auto simp: v0_def dest: seed_payload_Entries)
  define v1 where "v1 = v0\<lparr>i_payload := Entries [(''.'', vi)]\<rparr>"
  have s2': "s2 = s\<lparr>inodes := (inodes s)(vi \<mapsto> v1), free_blocks := free_blocks s - 1\<rparr>"
    using s2 es1 by (simp add: v1_def)
  from a2 [unfolded s2'] have
    "\<exists>es2. i_payload v1 = Entries es2 \<and>
       s3 = s\<lparr>inodes := (inodes s)
              (vi \<mapsto> v1\<lparr>i_payload := Entries (es2 @ [(''..'', dir)])\<rparr>),
            free_blocks := free_blocks s - 1\<rparr>"
    by (rule add_dentry_self)
  then have s3': "s3 = s\<lparr>inodes := (inodes s)
            (vi \<mapsto> v0\<lparr>i_payload := Entries [(''.'', vi), (''..'', dir)]\<rparr>),
          free_blocks := free_blocks s - 1\<rparr>"
    by (auto simp: v1_def)
  have d3: "inodes s3 dir = Some d"
    using dir ne by (simp add: s3')
  from add_dentry_success [OF a3] d3 obtain es where
    pd: "i_payload d = Entries es" and abs: "d_name dentry \<notin> fst ` set es" and
    s4: "s4 = s3\<lparr>inodes := (inodes s3)
            (dir \<mapsto> d\<lparr>i_payload := Entries (es @ [(d_name dentry, vi)])\<rparr>)\<rparr>"
    by auto
  have "s' = s\<lparr>inodes := (inodes s)
                    (dir \<mapsto> d\<lparr>i_payload := Entries (es @ [(d_name dentry, vi)])\<rparr>,
                     vi \<mapsto> \<lparr>i_mode = mode OR S_IFDIR, i_nlink = 1, i_count = 1,
                            i_ctime = current_time s,
                            i_payload = Entries [(''.'', vi), (''..'', dir)]\<rparr>),
                  free_blocks := free_blocks s - 1\<rparr>"
    using ne by (simp add: s' s4 s3' inode_inc_link_count_def v0_def fun_upd_twist)
  then show ?thesis
    using fresh(1,2,5) ne d' pd abs by blast
qed

lemma wtfs_create_success:
  assumes ok: "wtfs_create s dir dentry mode excl = (Inr u, dentry', s')"
  shows "\<exists>vi d es. inodes s vi = None \<and> vi \<noteq> 0 \<and> vi \<noteq> dir \<and>
           dentry' = d_instantiate dentry vi \<and> inodes s dir = Some d \<and>
           i_payload d = Entries es \<and> d_name dentry \<notin> fst ` set es \<and>
           s' = s\<lparr>inodes := (inodes s)
                    (dir \<mapsto> d\<lparr>i_payload := Entries (es @ [(d_name dentry, vi)])\<rparr>,
                     vi \<mapsto> \<lparr>i_mode = mode OR S_IFREG, i_nlink = 1, i_count = 1,
                            i_ctime = current_time s,
                            i_payload = seed_payload (mode OR S_IFREG) None 0\<rparr>),
                  free_blocks := free_blocks s - 1\<rparr>"
proof -
  from ok obtain vi s1 s2 where
    new: "wtfs_new_inode s dir (mode OR S_IFREG) None 0 = (Inr vi, s1)" and
    a: "wtfs_add_dentry s1 dir vi (d_name dentry) (length (d_name dentry)) = (Inr (), s2)" and
    d': "dentry' = d_instantiate dentry vi" and
    s': "s' = inode_inc_link_count s2 vi"
    by (auto simp: wtfs_create_def split: prod.splits sum.splits)
  note fresh = new_inode_success [OF new]
  define v0 where "v0 = \<lparr>i_mode = mode OR S_IFREG, i_nlink = 0, i_count = 1,
      i_ctime = current_time s, i_payload = seed_payload (mode OR S_IFREG) None 0\<rparr>"
  have s1: "s1 = s\<lparr>inodes := (inodes s)(vi \<mapsto> v0), free_blocks := free_blocks s - 1\<rparr>"
    using fresh(4) by (simp add: v0_def)
  from add_dentry_success [OF a] obtain d es where
    d1: "inodes s1 dir = Some d" and
    pd: "i_payload d = Entries es" and abs: "d_name dentry \<notin> fst ` set es" and
    s2: "s2 = s1\<lparr>inodes := (inodes s1)
            (dir \<mapsto> d\<lparr>i_payload := Entries (es @ [(d_name dentry, vi)])\<rparr>)\<rparr>"
    by auto
  have reg: "(mode OR S_IFREG) AND S_IFMT \<noteq> S_IFDIR"
  proof
    assume "(mode OR S_IFREG) AND S_IFMT = S_IFDIR"
    then have "bit ((mode OR S_IFREG) AND S_IFMT) 15 = bit S_IFDIR 15"
      by simp
    then show False
      by (simp add: S_IFREG_def S_IFMT_def S_IFDIR_def bit_simps)
  qed
  have ne: "vi \<noteq> dir"
  proof
    assume "vi = dir"
    then have "d = v0" using d1 by (simp add: s1)
    then show False
      using pd reg by (simp add: v0_def seed_payload_def split: if_splits)
  qed
  have d0: "inodes s dir = Some d"
    using d1 ne by (simp add: s1)
  have "s' = s\<lparr>inodes := (inodes s)
                    (dir \<mapsto> d\<lparr>i_payload := Entries (es @ [(d_name dentry, vi)])\<rparr>,
                     vi \<mapsto> \<lparr>i_mode = mode OR S_IFREG, i_nlink = 1, i_count = 1,
                            i_ctime = current_time s,
                            i_payload = seed_payload (mode OR S_IFREG) None 0\<rparr>),
                  free_blocks := free_blocks s - 1\<rparr>"
    using ne by (simp add: s' s2 s1 inode_inc_link_count_def v0_def fun_upd_twist)
  then show ?thesis
    using fresh(1,2) ne d' d0 pd abs by blast
qed

lemma find_dentry_appended:
  assumes "dir_entries s dir = Some (es @ [(name, i)])" and "name \<notin> fst ` set es"
  shows "wtfs_find_dentry s dir name = i"
proof -
  have "map_of es name = None"
    using assms(2) by (simp add: map_of_eq_None_iff)
  then have "map_of (es @ [(name, i)]) name = Some i"
    by (simp add: map_add_def)
  then show ?thesis
    using assms(1) by (simp add: wtfs_find_dentry_def)
qed

lemma entries_naming_two_dirs:
  assumes "a \<le> max_inodes s" and "b \<le> max_inodes s" and "a \<noteq> b"
      and "dir_entries s a = Some ea" and "dir_entries s b = Some eb"
  shows "length (filter (\<lambda>e. snd e = i) ea) + length (filter (\<lambda>e. snd e = i) eb)
           \<le> entries_naming s i"
proof -
  define f where "f d = (case dir_entries s d of None \<Rightarrow> 0
      | Some es \<Rightarrow> length (filter (\<lambda>e. snd e = i) es))" for d
  have "entries_naming s i = sum f (set [0..<Suc (max_inodes s)])"
    unfolding entries_naming_def f_def
    by (rule sum_set_upt_conv_sum_list_nat [symmetric])
  moreover have "sum f {a, b} \<le> sum f (set [0..<Suc (max_inodes s)])"
    using assms(1,2) by (intro sum_mono2) auto
  moreover have "sum f {a, b} = f a + f b"
    using assms(3) by simp
  ultimately show ?thesis
    using assms(4,5) by (simp add: f_def)
qed

lemma delete_dentry_NotFound:
  "wtfs_delete_dentry s dir name = (Inl e, s') \<Longrightarrow> e = NotFound"
  by (auto simp: wtfs_delete_dentry_def split: option.splits payload.splits if_splits)

lemma delete_dentry_success:
  assumes "wtfs_delete_dentry s dir name = (Inr u, s1)"
  shows "\<exists>d es. inodes s dir = Some d \<and> i_payload d = Entries es \<and>
           name \<in> fst ` set es \<and>
           s1 = s\<lparr>inodes := (inodes s)
                    (dir \<mapsto> d\<lparr>i_payload := Entries (remove_entry name es)\<rparr>)\<rparr>"
  using assms
  by (auto simp: wtfs_delete_dentry_def split: option.splits payload.splits if_splits)

subsection \<open>Claims\<close>

text \<open>C1: for every valid \<open>(dir, name, mode)\<close>, that is a directory \<open>dir\<close>, a name
  absent from \<open>dir\<close> and a mode as create receives it (file-type bits clear, or
  those of a regular file): after a successful create, lookup of the name in \<open>dir\<close>
  returns the created inode, with link count 1 and of kind regular file.\<close>

theorem wtfs_create_then_lookup:
  assumes dir: "dir_entries s dir = Some es" and abs: "d_name dentry \<notin> fst ` set es"
      and bits: "mode AND S_IFMT = 0 \<or> mode AND S_IFMT = S_IFREG"
      and ok: "wtfs_create s dir dentry mode excl = (Inr (), dentry', s')"
  shows "\<exists>vi. d_inode dentry' = Some vi \<and>
           fst (wtfs_lookup s' dir (dq\<lparr>d_name := d_name dentry\<rparr>) flags) = Inr () \<and>
           d_inode (fst (snd (wtfs_lookup s' dir (dq\<lparr>d_name := d_name dentry\<rparr>) flags)))
             = Some vi \<and>
           link_count (snd (snd (wtfs_lookup s' dir (dq\<lparr>d_name := d_name dentry\<rparr>) flags))) vi
             = Some 1 \<and>
           kind_of (snd (snd (wtfs_lookup s' dir (dq\<lparr>d_name := d_name dentry\<rparr>) flags))) vi
             = Some RegularFile"
proof -
  from wtfs_create_success [OF ok] obtain vi d es' where
    vi0: "vi \<noteq> 0" and ne: "vi \<noteq> dir" and
    d': "dentry' = d_instantiate dentry vi" and
    abs': "d_name dentry \<notin> fst ` set es'" and
    s': "s' = s\<lparr>inodes := (inodes s)
                    (dir \<mapsto> d\<lparr>i_payload := Entries (es' @ [(d_name dentry, vi)])\<rparr>,
                     vi \<mapsto> \<lparr>i_mode = mode OR S_IFREG, i_nlink = 1, i_count = 1,
                            i_ctime = current_time s,
                            i_payload = seed_payload (mode OR S_IFREG) None 0\<rparr>),
                  free_blocks := free_blocks s - 1\<rparr>"
    by blast
  have "(mode OR S_IFREG) AND S_IFMT = (mode AND S_IFMT) OR (S_IFREG AND S_IFMT)"
    by (rule bit.conj_disj_distrib2)
  also have "S_IFREG AND S_IFMT = S_IFREG"
    by (simp add: S_IFREG_def S_IFMT_def)
  finally have "(mode OR S_IFREG) AND S_IFMT = S_IFREG"
    using bits by auto
  then have reg: "kind_of_mode (mode OR S_IFREG) = Some RegularFile"
    by (simp add: kind_of_mode_def)
  let ?q = "dq\<lparr>d_name := d_name dentry\<rparr>"
  let ?v = "\<lparr>i_mode = mode OR S_IFREG, i_nlink = 1, i_count = 1,
             i_ctime = current_time s,
             i_payload = seed_payload (mode OR S_IFREG) None 0\<rparr>"
  have e: "dir_entries s' dir = Some (es' @ [(d_name dentry, vi)])"
    using ne by (simp add: s' dir_entries_def)
  have f: "wtfs_find_dentry s' dir (d_name ?q) = vi"
    using find_dentry_appended [OF e abs'] by simp
  have g: "wtfs_iget s' vi
      = (Inr vi, s'\<lparr>inodes := (inodes s')(vi \<mapsto> ?v\<lparr>i_count := Suc 1\<rparr>)\<rparr>)"
    by (simp add: wtfs_iget_def s')
  have l: "wtfs_lookup s' dir ?q flags
      = (Inr (), d_add ?q (Some vi), s'\<lparr>inodes := (inodes s')(vi \<mapsto> ?v\<lparr>i_count := Suc 1\<rparr>)\<rparr>)"
    using f g vi0 by (simp add: wtfs_lookup_def)
  show ?thesis
    using reg by (simp add: l d' d_instantiate_def d_add_def link_count_def kind_of_def)
qed

theorem wtfs_create_then_lookup_witness:
  "dir_entries fs_root 1 = Some [(''.'', 1), (''..'', 1)] \<and>
   (0x81A4 :: umode_t) AND S_IFMT = S_IFREG \<and>
   fst (wtfs_create fs_root 1 (new_dentry ''f'') 0x81A4 False) = Inr () \<and>
   (\<exists>vi. d_inode (fst (snd (wtfs_create fs_root 1 (new_dentry ''f'') 0x81A4 False))) = Some vi \<and>
      fst (wtfs_lookup (snd (snd (wtfs_create fs_root 1 (new_dentry ''f'') 0x81A4 False)))
             1 (new_dentry ''f'') 0) = Inr () \<and>
      link_count (snd (snd (wtfs_lookup
             (snd (snd (wtfs_create fs_root 1 (new_dentry ''f'') 0x81A4 False)))
             1 (new_dentry ''f'') 0))) vi = Some 1 \<and>
      kind_of (snd (snd (wtfs_lookup
             (snd (snd (wtfs_create fs_root 1 (new_dentry ''f'') 0x81A4 False)))
             1 (new_dentry ''f'') 0))) vi = Some RegularFile) \<and>
   (0x1A4 :: umode_t) AND S_IFMT = 0 \<and>
   fst (wtfs_create fs_root 1 (new_dentry ''f'') 0x1A4 False) = Inr () \<and>
   (\<exists>vi. d_inode (fst (snd (wtfs_create fs_root 1 (new_dentry ''f'') 0x1A4 False))) = Some vi \<and>
      kind_of (snd (snd (wtfs_lookup
             (snd (snd (wtfs_create fs_root 1 (new_dentry ''f'') 0x1A4 False)))
             1 (new_dentry ''f'') 0))) vi = Some RegularFile)"
proof -
  let ?r = "wtfs_create fs_root 1 (new_dentry ''f'') 0x81A4 False"
  let ?p = "wtfs_create fs_root 1 (new_dentry ''f'') 0x1A4 False"
  have dir: "dir_entries fs_root 1 = Some [(''.'', 1), (''..'', 1)]"
    by (simp add: helper_defs state_defs)
  have abs: "d_name (new_dentry ''f'') \<notin> fst ` set [(''.'', 1 :: nat), (''..'', 1)]"
    by (simp add: new_dentry_def)
  have z: "(0x81A4 :: umode_t) AND S_IFMT = S_IFREG"
    by (simp add: mode_defs)
  then have bits: "(0x81A4 :: umode_t) AND S_IFMT = 0 \<or> (0x81A4 :: umode_t) AND S_IFMT = S_IFREG"
    by simp
  have z': "(0x1A4 :: umode_t) AND S_IFMT = 0"
    by (simp add: mode_defs)
  then have bits': "(0x1A4 :: umode_t) AND S_IFMT = 0 \<or> (0x1A4 :: umode_t) AND S_IFMT = S_IFREG"
    by simp
  have r: "fst ?r = Inr ()"
    by (simp add: wtfs_create_def helper_defs state_defs mode_defs)
  then have ok: "?r = (Inr (), fst (snd ?r), snd (snd ?r))"
    by (simp add: prod_eq_iff)
  have p: "fst ?p = Inr ()"
    by (simp add: wtfs_create_def helper_defs state_defs mode_defs)
  then have ok': "?p = (Inr (), fst (snd ?p), snd (snd ?p))"
    by (simp add: prod_eq_iff)
  have q: "(new_dentry ''f'')\<lparr>d_name := d_name (new_dentry ''f'')\<rparr> = new_dentry ''f''"
    by (simp add: new_dentry_def)
  show ?thesis
    using dir z z' r p
      wtfs_create_then_lookup [OF dir abs bits ok, of "new_dentry ''f''" 0]
      wtfs_create_then_lookup [OF dir abs bits' ok', of "new_dentry ''f''" 0]
    unfolding q by blast
qed

text \<open>C2: when the entry-add step of create fails after the inode was allocated,
  create returns the add step's error; the new inode, whose link count was still 0,
  has been released and is no longer in the store; \<open>dir\<close> holds the entries it held
  before, and the whole state is the one before the call.\<close>
theorem wtfs_create_add_failure:
  assumes "wtfs_new_inode s dir (mode OR S_IFREG) None 0 = (Inr vi, s1)"
      and "fst (wtfs_add_dentry s1 dir vi (d_name dentry) (length (d_name dentry))) = Inl e"
  shows "wtfs_create s dir dentry mode excl = (Inl e, dentry, s) \<and>
         link_count s1 vi = Some 0 \<and>
         inodes (snd (snd (wtfs_create s dir dentry mode excl))) vi = None \<and>
         dir_entries (snd (snd (wtfs_create s dir dentry mode excl))) dir
           = dir_entries s dir"
proof -
  obtain s2 where add: "wtfs_add_dentry s1 dir vi (d_name dentry) (length (d_name dentry))
      = (Inl e, s2)"
    using assms(2) by (cases "wtfs_add_dentry s1 dir vi (d_name dentry) (length (d_name dentry))") simp
  have s2: "s2 = s1" by (rule add_dentry_failure [OF add])
  note new = new_inode_success [OF assms(1)]
  have "iput s1 vi = s"
    unfolding new(4) by (rule iput_rollback [OF new(1) new(3)]) simp_all
  then have "wtfs_create s dir dentry mode excl = (Inl e, dentry, s)"
    using assms(1) add s2 by (simp add: wtfs_create_def)
  moreover have "link_count s1 vi = Some 0"
    unfolding new(4) by (simp add: link_count_def)
  ultimately show ?thesis using new(1) by simp
qed

theorem wtfs_create_add_failure_witness:
  "fst (wtfs_new_inode (fs_root\<lparr>max_entries := 2\<rparr>) 1 (0x1A4 OR S_IFREG) None 0) = Inr 2 \<and>
   fst (wtfs_add_dentry
          (snd (wtfs_new_inode (fs_root\<lparr>max_entries := 2\<rparr>) 1 (0x1A4 OR S_IFREG) None 0))
          1 2 ''f'' (length ''f'')) = Inl NoSpace \<and>
   wtfs_create (fs_root\<lparr>max_entries := 2\<rparr>) 1 (new_dentry ''f'') 0x1A4 False
     = (Inl NoSpace, new_dentry ''f'', fs_root\<lparr>max_entries := 2\<rparr>)"
proof -
  let ?s = "fs_root\<lparr>max_entries := 2\<rparr>"
  let ?s1 = "snd (wtfs_new_inode ?s 1 (0x1A4 OR S_IFREG) None 0)"
  have n1: "fst (wtfs_new_inode ?s 1 (0x1A4 OR S_IFREG) None 0) = Inr 2"
    by (simp add: helper_defs fs_root_def mode_defs)
  have n: "wtfs_new_inode ?s 1 (0x1A4 OR S_IFREG) None 0 = (Inr 2, ?s1)"
    using n1 by (simp add: prod_eq_iff)
  have a: "fst (wtfs_add_dentry ?s1 1 2 (d_name (new_dentry ''f''))
             (length (d_name (new_dentry ''f'')))) = Inl NoSpace"
    by (simp add: helper_defs state_defs mode_defs)
  show ?thesis
    using n1 a wtfs_create_add_failure [OF n a, of False]
    by (simp add: new_dentry_def)
qed

text \<open>C3: when any of the three entry-add steps of mkdir fails (\<open>.\<close> into the new
  inode, \<open>..\<close> into the new inode, the name into \<open>dir\<close>), mkdir returns that error;
  the new inode has been released, and the entries already written to it with it;
  \<open>dir\<close> holds the entries it held before, and the whole state is the one before
  the call.\<close>
theorem wtfs_mkdir_add_failure:
  assumes new: "wtfs_new_inode s dir (mode OR S_IFDIR) None 0 = (Inr vi, s1)"
      and fail:
        "fst (wtfs_add_dentry s1 vi vi ''.'' 1) = Inl e \<or>
         (\<exists>s2. wtfs_add_dentry s1 vi vi ''.'' 1 = (Inr (), s2) \<and>
            (fst (wtfs_add_dentry s2 vi dir ''..'' 2) = Inl e \<or>
             (\<exists>s3. wtfs_add_dentry s2 vi dir ''..'' 2 = (Inr (), s3) \<and>
                fst (wtfs_add_dentry s3 dir vi (d_name dentry) (length (d_name dentry)))
                  = Inl e)))"
  shows "wtfs_mkdir s dir dentry mode = (Inl e, dentry, s) \<and>
         inodes (snd (snd (wtfs_mkdir s dir dentry mode))) vi = None \<and>
         dir_entries (snd (snd (wtfs_mkdir s dir dentry mode))) dir = dir_entries s dir"
proof -
  note fresh = new_inode_success [OF new]
  define v0 where "v0 = \<lparr>i_mode = mode OR S_IFDIR, i_nlink = 0, i_count = 1,
      i_ctime = current_time s, i_payload = seed_payload (mode OR S_IFDIR) None 0\<rparr>"
  have s1: "s1 = s\<lparr>inodes := (inodes s)(vi \<mapsto> v0), free_blocks := free_blocks s - 1\<rparr>"
    using fresh(4) by (simp add: v0_def)
  have v0: "i_nlink v0 = 0" "i_count v0 = 1"
    by (simp_all add: v0_def)
  have undo: "iput (s\<lparr>inodes := (inodes s)(vi \<mapsto> v),
                 free_blocks := free_blocks s - 1\<rparr>) vi = s"
    if "i_nlink v = 0" and "i_count v = 1" for v
    using that by (rule iput_rollback [OF fresh(1) fresh(3)])
  have res: "wtfs_mkdir s dir dentry mode = (Inl e, dentry, s)"
  proof (cases "wtfs_add_dentry s1 vi vi ''.'' 1")
    case (Pair r1 s2)
    show ?thesis
    proof (cases r1)
      case (Inl e1)
      with Pair fail have "e1 = e" by auto
      moreover have "s2 = s1"
        using Pair Inl by (auto dest: add_dentry_failure)
      ultimately show ?thesis
        using new Pair Inl undo [OF v0] by (simp add: wtfs_mkdir_def s1)
    next
      case (Inr u1)
      from Pair Inr obtain es1 where
        s2: "s2 = s\<lparr>inodes := (inodes s)
                (vi \<mapsto> v0\<lparr>i_payload := Entries (es1 @ [(''.'', vi)])\<rparr>),
              free_blocks := free_blocks s - 1\<rparr>"
        unfolding s1 by (auto dest: add_dentry_self)
      define v1 where "v1 = v0\<lparr>i_payload := Entries (es1 @ [(''.'', vi)])\<rparr>"
      have v1: "i_nlink v1 = 0" "i_count v1 = 1"
        by (simp_all add: v1_def v0)
      have s2': "s2 = s\<lparr>inodes := (inodes s)(vi \<mapsto> v1), free_blocks := free_blocks s - 1\<rparr>"
        using s2 by (simp add: v1_def)
      show ?thesis
      proof (cases "wtfs_add_dentry s2 vi dir ''..'' 2")
        case P2: (Pair r2 s3)
        show ?thesis
        proof (cases r2)
          case (Inl e2)
          with Pair Inr P2 fail have "e2 = e" by auto
          moreover have "s3 = s2"
            using P2 Inl by (auto dest: add_dentry_failure)
          ultimately show ?thesis
            using new Pair Inr P2 Inl undo [OF v1]
            by (simp add: wtfs_mkdir_def s2')
        next
          case I2: (Inr u2)
          from P2 I2 obtain es2 where
            s3: "s3 = s\<lparr>inodes := (inodes s)
                    (vi \<mapsto> v1\<lparr>i_payload := Entries (es2 @ [(''..'', dir)])\<rparr>),
                  free_blocks := free_blocks s - 1\<rparr>"
            unfolding s2' by (auto dest: add_dentry_self)
          define v2 where "v2 = v1\<lparr>i_payload := Entries (es2 @ [(''..'', dir)])\<rparr>"
          have v2: "i_nlink v2 = 0" "i_count v2 = 1"
            by (simp_all add: v2_def v1)
          have s3': "s3 = s\<lparr>inodes := (inodes s)(vi \<mapsto> v2),
                          free_blocks := free_blocks s - 1\<rparr>"
            using s3 by (simp add: v2_def)
          obtain r3 s4 where P3:
            "wtfs_add_dentry s3 dir vi (d_name dentry) (length (d_name dentry)) = (r3, s4)"
            by (cases "wtfs_add_dentry s3 dir vi (d_name dentry) (length (d_name dentry))")
          from Pair Inr P2 I2 P3 fail have r3: "r3 = Inl e" by auto
          then have "s4 = s3"
            using P3 by (auto dest: add_dentry_failure)
          then show ?thesis
            using new Pair Inr P2 I2 P3 r3 undo [OF v2]
            by (simp add: wtfs_mkdir_def s3')
        qed
      qed
    qed
  qed
  then show ?thesis using fresh(1) by simp
qed

theorem wtfs_mkdir_add_failure_witness:
  "fst (wtfs_new_inode (fs_root\<lparr>max_entries := 0\<rparr>) 1 (0x1ED OR S_IFDIR) None 0) = Inr 2 \<and>
   wtfs_mkdir (fs_root\<lparr>max_entries := 0\<rparr>) 1 (new_dentry ''sub'') 0x1ED
     = (Inl NoSpace, new_dentry ''sub'', fs_root\<lparr>max_entries := 0\<rparr>) \<and>
   wtfs_mkdir (fs_root\<lparr>max_entries := 1\<rparr>) 1 (new_dentry ''sub'') 0x1ED
     = (Inl NoSpace, new_dentry ''sub'', fs_root\<lparr>max_entries := 1\<rparr>) \<and>
   wtfs_mkdir (fs_root\<lparr>max_entries := 2\<rparr>) 1 (new_dentry ''sub'') 0x1ED
     = (Inl NoSpace, new_dentry ''sub'', fs_root\<lparr>max_entries := 2\<rparr>) \<and>
   wtfs_mkdir fs_root 1 (new_dentry ''..'') 0x1ED
     = (Inl Duplicate, new_dentry ''..'', fs_root)"
proof -
  let ?d = "new_dentry ''sub''"
  have n: "wtfs_new_inode (fs_root\<lparr>max_entries := k\<rparr>) 1 (0x1ED OR S_IFDIR) None 0
      = (Inr 2, snd (wtfs_new_inode (fs_root\<lparr>max_entries := k\<rparr>) 1
                       (0x1ED OR S_IFDIR) None 0))" for k
    by (simp add: helper_defs fs_root_def mode_defs)
  have n': "wtfs_new_inode fs_root 1 (0x1ED OR S_IFDIR) None 0
      = (Inr 2, snd (wtfs_new_inode fs_root 1 (0x1ED OR S_IFDIR) None 0))"
    by (simp add: helper_defs fs_root_def mode_defs)
  have f0: "fst (wtfs_add_dentry
        (snd (wtfs_new_inode (fs_root\<lparr>max_entries := 0\<rparr>) 1 (0x1ED OR S_IFDIR) None 0))
        2 2 ''.'' 1) = Inl NoSpace"
    by (simp add: helper_defs fs_root_def mode_defs)
  let ?s1 = "snd (wtfs_new_inode (fs_root\<lparr>max_entries := 1\<rparr>) 1 (0x1ED OR S_IFDIR) None 0)"
  have f1: "\<exists>s2. wtfs_add_dentry ?s1 2 2 ''.'' 1 = (Inr (), s2) \<and>
              fst (wtfs_add_dentry s2 2 1 ''..'' 2) = Inl NoSpace"
    by (simp add: helper_defs fs_root_def mode_defs)
  let ?s2 = "snd (wtfs_new_inode (fs_root\<lparr>max_entries := 2\<rparr>) 1 (0x1ED OR S_IFDIR) None 0)"
  have f2: "\<exists>s2. wtfs_add_dentry ?s2 2 2 ''.'' 1 = (Inr (), s2) \<and>
              (\<exists>s3. wtfs_add_dentry s2 2 1 ''..'' 2 = (Inr (), s3) \<and>
                 fst (wtfs_add_dentry s3 1 2 (d_name ?d) (length (d_name ?d))) = Inl NoSpace)"
    by (simp add: helper_defs state_defs mode_defs)
  let ?s3 = "snd (wtfs_new_inode fs_root 1 (0x1ED OR S_IFDIR) None 0)"
  have f3: "\<exists>s2. wtfs_add_dentry ?s3 2 2 ''.'' 1 = (Inr (), s2) \<and>
              (\<exists>s3. wtfs_add_dentry s2 2 1 ''..'' 2 = (Inr (), s3) \<and>
                 fst (wtfs_add_dentry s3 1 2 (d_name (new_dentry ''..''))
                        (length (d_name (new_dentry ''..'')))) = Inl Duplicate)"
    by (simp add: helper_defs state_defs mode_defs)
  have r: "e = e' \<Longrightarrow> wtfs_mkdir s 1 d m = (Inl e, d, s) \<and> P \<and> Q
      \<Longrightarrow> wtfs_mkdir s 1 d m = (Inl e', d, s)" for e e' s d m P Q
    by simp
  have r0: "wtfs_mkdir (fs_root\<lparr>max_entries := 0\<rparr>) 1 ?d 0x1ED
      = (Inl NoSpace, ?d, fs_root\<lparr>max_entries := 0\<rparr>)"
    by (rule r [OF refl wtfs_mkdir_add_failure [OF n [of 0]]]) (use f0 in blast)
  have r1: "wtfs_mkdir (fs_root\<lparr>max_entries := 1\<rparr>) 1 ?d 0x1ED
      = (Inl NoSpace, ?d, fs_root\<lparr>max_entries := 1\<rparr>)"
    by (rule r [OF refl wtfs_mkdir_add_failure [OF n [of 1]]]) (use f1 in blast)
  have r2: "wtfs_mkdir (fs_root\<lparr>max_entries := 2\<rparr>) 1 ?d 0x1ED
      = (Inl NoSpace, ?d, fs_root\<lparr>max_entries := 2\<rparr>)"
    by (rule r [OF refl wtfs_mkdir_add_failure [OF n [of 2]]]) (use f2 in blast)
  have r3: "wtfs_mkdir fs_root 1 (new_dentry ''..'') 0x1ED
      = (Inl Duplicate, new_dentry ''..'', fs_root)"
    by (rule r [OF refl wtfs_mkdir_add_failure [OF n']]) (use f3 in blast)
  have "fst (wtfs_new_inode (fs_root\<lparr>max_entries := 0\<rparr>) 1 (0x1ED OR S_IFDIR) None 0) = Inr 2"
    by (simp add: helper_defs fs_root_def mode_defs)
  then show ?thesis
    using r0 r1 r2 r3 by simp
qed

text \<open>C4, as stated, fails: after a successful mkdir in the root-only file system the
  new directory (inode 2) is named by two entries, \<open>sub\<close> in the root and its own
  \<open>.\<close>, and its link count is 1, not 2.\<close>
theorem wtfs_mkdir_link_count_counterexample:
  "fst (wtfs_mkdir fs_root 1 (new_dentry ''sub'') 0x1ED) = Inr () \<and>
   d_inode (fst (snd (wtfs_mkdir fs_root 1 (new_dentry ''sub'') 0x1ED))) = Some 2 \<and>
   link_count (snd (snd (wtfs_mkdir fs_root 1 (new_dentry ''sub'') 0x1ED))) 2 = Some 1 \<and>
   entries_naming (snd (snd (wtfs_mkdir fs_root 1 (new_dentry ''sub'') 0x1ED))) 2 = 2 \<and>
   link_count (snd (snd (wtfs_mkdir fs_root 1 (new_dentry ''sub'') 0x1ED))) 2 \<noteq> Some 2"
  by (simp add: wtfs_mkdir_def entries_naming_def helper_defs state_defs mode_defs)

text \<open>C4, amended: after every successful mkdir the new directory's link count is 1.
  It was 0 at allocation and mkdir adds one link, for the parent's entry; the
  directory's own \<open>.\<close> entry is not counted, although both entries name it, so the
  entries naming it are at least 2.\<close>

theorem wtfs_mkdir_link_count:
  assumes ok: "wtfs_mkdir s dir dentry mode = (Inr (), dentry', s')"
      and dir: "inodes s dir \<noteq> None" and bound: "dir \<le> max_inodes s"
  shows "\<exists>sub. d_inode dentry' = Some sub \<and>
           link_count s' sub = Some 1 \<and>
           wtfs_find_dentry s' dir (d_name dentry) = sub \<and>
           wtfs_find_dentry s' sub ''.'' = sub \<and>
           2 \<le> entries_naming s' sub"
proof -
  from dir obtain d where d: "inodes s dir = Some d" by auto
  from wtfs_mkdir_success [OF ok d] obtain sub es where
    ne: "sub \<noteq> dir" and sb: "sub \<le> max_inodes s" and
    d': "dentry' = d_instantiate dentry sub" and
    abs: "d_name dentry \<notin> fst ` set es" and
    s': "s' = s\<lparr>inodes := (inodes s)
                    (dir \<mapsto> d\<lparr>i_payload := Entries (es @ [(d_name dentry, sub)])\<rparr>,
                     sub \<mapsto> \<lparr>i_mode = mode OR S_IFDIR, i_nlink = 1, i_count = 1,
                            i_ctime = current_time s,
                            i_payload = Entries [(''.'', sub), (''..'', dir)]\<rparr>),
                  free_blocks := free_blocks s - 1\<rparr>"
    by blast
  have e1: "dir_entries s' sub = Some [(''.'', sub), (''..'', dir)]"
    by (simp add: s' dir_entries_def)
  have e2: "dir_entries s' dir = Some (es @ [(d_name dentry, sub)])"
    using ne by (simp add: s' dir_entries_def)
  have lc: "link_count s' sub = Some 1"
    by (simp add: s' link_count_def)
  have f1: "wtfs_find_dentry s' sub ''.'' = sub"
    by (simp add: wtfs_find_dentry_def e1)
  have f2: "wtfs_find_dentry s' dir (d_name dentry) = sub"
    by (rule find_dentry_appended [OF e2 abs])
  have mx: "max_inodes s' = max_inodes s"
    by (simp add: s')
  have "length (filter (\<lambda>e. snd e = sub) [(''.'', sub), (''..'', dir)])
          + length (filter (\<lambda>e. snd e = sub) (es @ [(d_name dentry, sub)]))
        \<le> entries_naming s' sub"
    using sb bound ne e1 e2 by (intro entries_naming_two_dirs) (simp_all add: mx)
  then have "2 \<le> entries_naming s' sub"
    using ne by simp
  then show ?thesis
    using d' lc f1 f2 by (simp add: d_instantiate_def)
qed

theorem wtfs_mkdir_link_count_witness:
  "fst (wtfs_mkdir fs_root 1 (new_dentry ''sub'') 0x1ED) = Inr () \<and>
   inodes fs_root 1 \<noteq> None \<and> 1 \<le> max_inodes fs_root \<and>
   (\<exists>sub. d_inode (fst (snd (wtfs_mkdir fs_root 1 (new_dentry ''sub'') 0x1ED))) = Some sub \<and>
      link_count (snd (snd (wtfs_mkdir fs_root 1 (new_dentry ''sub'') 0x1ED))) sub = Some 1 \<and>
      wtfs_find_dentry (snd (snd (wtfs_mkdir fs_root 1 (new_dentry ''sub'') 0x1ED))) 1 ''sub''
        = sub \<and>
      wtfs_find_dentry (snd (snd (wtfs_mkdir fs_root 1 (new_dentry ''sub'') 0x1ED))) sub ''.''
        = sub \<and>
      2 \<le> entries_naming (snd (snd (wtfs_mkdir fs_root 1 (new_dentry ''sub'') 0x1ED))) sub)"
proof -
  let ?r = "wtfs_mkdir fs_root 1 (new_dentry ''sub'') 0x1ED"
  have r: "fst ?r = Inr ()"
    by (simp add: wtfs_mkdir_def helper_defs state_defs mode_defs)
  then have ok: "?r = (Inr (), fst (snd ?r), snd (snd ?r))"
    by (simp add: prod_eq_iff)
  have dir: "inodes fs_root 1 \<noteq> None"
    by (simp add: fs_root_def)
  have bound: "1 \<le> max_inodes fs_root"
    by (simp add: fs_root_def)
  show ?thesis
    using r dir bound wtfs_mkdir_link_count [OF ok dir bound]
    by (simp add: new_dentry_def)
qed

text \<open>C5, as stated, fails: \<open>wtfs_unlink\<close> checks no kind. Unlinking the directory
  \<open>sub\<close> (inode 2) from the root succeeds; the entry is gone, the link count of the
  target went from 1 to 0 and its ctime from 3 to the root's 5.\<close>
theorem wtfs_unlink_directory_counterexample:
  "kind_of fs_sub 2 = Some Directory \<and>
   wtfs_find_dentry fs_sub 1 ''sub'' = 2 \<and>
   link_count fs_sub 2 = Some 1 \<and> ctime fs_sub 2 = Some 3 \<and>
   fst (wtfs_unlink fs_sub 1 \<lparr>d_name = ''sub'', d_inode = Some 2, d_hashed = True\<rparr>)
     = Inr () \<and>
   wtfs_find_dentry
     (snd (wtfs_unlink fs_sub 1 \<lparr>d_name = ''sub'', d_inode = Some 2, d_hashed = True\<rparr>))
     1 ''sub'' = 0 \<and>
   link_count
     (snd (wtfs_unlink fs_sub 1 \<lparr>d_name = ''sub'', d_inode = Some 2, d_hashed = True\<rparr>))
     2 = Some 0 \<and>
   ctime
     (snd (wtfs_unlink fs_sub 1 \<lparr>d_name = ''sub'', d_inode = Some 2, d_hashed = True\<rparr>))
     2 = Some 5"
  by (simp add: wtfs_unlink_def helper_defs state_defs mode_defs)

text \<open>C5, amended: unlink of a target that is a directory never fails with
  \<open>InvalidKind\<close>, as \<open>wtfs_unlink\<close> checks no kind. When the entry-remove step
  succeeds, unlink succeeds as for any other target: the entry is removed, the
  target's link count is decremented and its ctime set to that of \<open>dir\<close>. When the
  remove step fails, unlink returns that error and changes nothing. That the target
  is no directory is a precondition on the caller.\<close>

theorem wtfs_unlink_directory_target:
  assumes tgt: "kind_of s t = Some Directory"
      and bound: "d_inode dentry = Some t"
  shows "fst (wtfs_unlink s dir dentry) \<noteq> Inl InvalidKind \<and>
         (fst (wtfs_delete_dentry s dir (d_name dentry)) = Inr () \<longrightarrow>
            fst (wtfs_unlink s dir dentry) = Inr () \<and>
            dir_entries (snd (wtfs_unlink s dir dentry)) dir
              = map_option (remove_entry (d_name dentry)) (dir_entries s dir) \<and>
            link_count (snd (wtfs_unlink s dir dentry)) t
              = map_option (\<lambda>n. n - 1) (link_count s t) \<and>
            ctime (snd (wtfs_unlink s dir dentry)) t = ctime s dir) \<and>
         (\<forall>e. fst (wtfs_delete_dentry s dir (d_name dentry)) = Inl e \<longrightarrow>
            wtfs_unlink s dir dentry = (Inl e, s))"
proof (cases "wtfs_delete_dentry s dir (d_name dentry)")
  case (Pair r s1)
  show ?thesis
  proof (cases r)
    case (Inl e)
    have "s1 = s" and "e = NotFound"
      using Pair Inl by (auto dest: delete_dentry_failure delete_dentry_NotFound)
    then show ?thesis
      using Pair Inl by (simp add: wtfs_unlink_def)
  next
    case (Inr u)
    then have rm: "wtfs_delete_dentry s dir (d_name dentry) = (Inr (), s1)"
      using Pair by simp
    from delete_dentry_success [OF rm] obtain d es where
      d: "inodes s dir = Some d" and pd: "i_payload d = Entries es" and
      s1: "s1 = s\<lparr>inodes := (inodes s)
                      (dir \<mapsto> d\<lparr>i_payload := Entries (remove_entry (d_name dentry) es)\<rparr>)\<rparr>"
      by blast
    from tgt obtain v where v: "inodes s t = Some v"
      by (auto simp: kind_of_def split: option.splits)
    show ?thesis
    proof (cases "t = dir")
      case True
      with d v have "v = d" by simp
      with True show ?thesis
        using rm d pd bound
        by (simp add: wtfs_unlink_def s1 inode_dec_link_count_def
              dir_entries_def link_count_def ctime_def)
    next
      case False
      then show ?thesis
        using rm d pd v bound
        by (simp add: wtfs_unlink_def s1 inode_dec_link_count_def
              dir_entries_def link_count_def ctime_def)
    qed
  qed
qed

theorem wtfs_unlink_directory_target_witness:
  "kind_of fs_sub 2 = Some Directory \<and>
   fst (wtfs_delete_dentry fs_sub 1 ''sub'') = Inr () \<and>
   fst (wtfs_unlink fs_sub 1 \<lparr>d_name = ''sub'', d_inode = Some 2, d_hashed = True\<rparr>)
     = Inr () \<and>
   link_count
     (snd (wtfs_unlink fs_sub 1 \<lparr>d_name = ''sub'', d_inode = Some 2, d_hashed = True\<rparr>))
     2 = Some 0 \<and>
   ctime
     (snd (wtfs_unlink fs_sub 1 \<lparr>d_name = ''sub'', d_inode = Some 2, d_hashed = True\<rparr>))
     2 = Some 5 \<and>
   fst (wtfs_delete_dentry fs_sub 1 ''gone'') = Inl NotFound \<and>
   wtfs_unlink fs_sub 1 \<lparr>d_name = ''gone'', d_inode = Some 2, d_hashed = True\<rparr>
     = (Inl NotFound, fs_sub)"
proof -
  let ?d = "\<lparr>d_name = ''sub'', d_inode = Some 2, d_hashed = True\<rparr>"
  let ?g = "\<lparr>d_name = ''gone'', d_inode = Some 2, d_hashed = True\<rparr>"
  have tgt: "kind_of fs_sub 2 = Some Directory"
    by (simp add: helper_defs state_defs mode_defs)
  have bd: "d_inode ?d = Some 2" and bg: "d_inode ?g = Some 2" by simp_all
  have r: "fst (wtfs_delete_dentry fs_sub 1 ''sub'') = Inr ()"
    by (simp add: helper_defs state_defs)
  have f: "fst (wtfs_delete_dentry fs_sub 1 ''gone'') = Inl NotFound"
    by (simp add: helper_defs state_defs)
  have l: "link_count fs_sub 2 = Some 1" and c: "ctime fs_sub 1 = Some 5"
    by (simp_all add: helper_defs state_defs)
  show ?thesis
    using tgt r f l c
      wtfs_unlink_directory_target [OF tgt bd, of 1]
      wtfs_unlink_directory_target [OF tgt bg, of 1]
    by simp
qed

text \<open>C6: after a successful mkdir into a directory \<open>dir\<close>, the new directory
  \<open>sub\<close> did not exist before the call and its payload holds exactly the entries
  \<open>.\<close> and \<open>..\<close>, written by the call; looking up \<open>.\<close> in \<open>sub\<close> resolves to \<open>sub\<close>,
  looking up \<open>..\<close> resolves to \<open>dir\<close>, and the link count of \<open>dir\<close> is what it was.\<close>
theorem wtfs_mkdir_dot_entries:
  assumes ok: "wtfs_mkdir s dir dentry mode = (Inr (), dentry', s')"
      and dir: "inodes s dir \<noteq> None" and nz: "dir \<noteq> 0"
  shows "\<exists>sub. d_inode dentry' = Some sub \<and> inodes s sub = None \<and>
           dir_entries s' sub = Some [(''.'', sub), (''..'', dir)] \<and>
           fst (wtfs_lookup s' sub (dq\<lparr>d_name := ''.''\<rparr>) flags) = Inr () \<and>
           d_inode (fst (snd (wtfs_lookup s' sub (dq\<lparr>d_name := ''.''\<rparr>) flags))) = Some sub \<and>
           fst (wtfs_lookup s' sub (dq\<lparr>d_name := ''..''\<rparr>) flags) = Inr () \<and>
           d_inode (fst (snd (wtfs_lookup s' sub (dq\<lparr>d_name := ''..''\<rparr>) flags))) = Some dir \<and>
           link_count s' dir = link_count s dir"
proof -
  from dir obtain d where d: "inodes s dir = Some d" by auto
  from wtfs_mkdir_success [OF ok d] obtain sub es where
    fresh: "inodes s sub = None" and sub0: "sub \<noteq> 0" and ne: "sub \<noteq> dir" and
    d': "dentry' = d_instantiate dentry sub" and
    s': "s' = s\<lparr>inodes := (inodes s)
                    (dir \<mapsto> d\<lparr>i_payload := Entries (es @ [(d_name dentry, sub)])\<rparr>,
                     sub \<mapsto> \<lparr>i_mode = mode OR S_IFDIR, i_nlink = 1, i_count = 1,
                            i_ctime = current_time s,
                            i_payload = Entries [(''.'', sub), (''..'', dir)]\<rparr>),
                  free_blocks := free_blocks s - 1\<rparr>"
    by blast
  have ents: "dir_entries s' sub = Some [(''.'', sub), (''..'', dir)]"
    by (simp add: s' dir_entries_def)
  have f1: "wtfs_find_dentry s' sub ''.'' = sub"
    by (simp add: wtfs_find_dentry_def ents)
  have f2: "wtfs_find_dentry s' sub ''..'' = dir"
    by (simp add: wtfs_find_dentry_def ents)
  have g1: "fst (wtfs_iget s' sub) = Inr sub"
    by (simp add: wtfs_iget_def s')
  have g2: "fst (wtfs_iget s' dir) = Inr dir"
    using ne by (simp add: wtfs_iget_def s')
  have l1: "fst (wtfs_lookup s' sub (dq\<lparr>d_name := ''.''\<rparr>) flags) = Inr () \<and>
      d_inode (fst (snd (wtfs_lookup s' sub (dq\<lparr>d_name := ''.''\<rparr>) flags))) = Some sub"
    using f1 g1 sub0
    by (cases "wtfs_iget s' sub") (simp add: wtfs_lookup_def d_add_def)
  have l2: "fst (wtfs_lookup s' sub (dq\<lparr>d_name := ''..''\<rparr>) flags) = Inr () \<and>
      d_inode (fst (snd (wtfs_lookup s' sub (dq\<lparr>d_name := ''..''\<rparr>) flags))) = Some dir"
    using f2 g2 nz
    by (cases "wtfs_iget s' dir") (simp add: wtfs_lookup_def d_add_def)
  have lc: "link_count s' dir = link_count s dir"
    using ne d by (simp add: s' link_count_def)
  show ?thesis
    using d' fresh ents l1 l2 lc by (auto simp: d_instantiate_def)
qed

theorem wtfs_mkdir_dot_entries_witness:
  "wtfs_mkdir fs_root 1 (new_dentry ''sub'') 0x1ED
     = (Inr (), \<lparr>d_name = ''sub'', d_inode = Some 2, d_hashed = False\<rparr>,
        snd (snd (wtfs_mkdir fs_root 1 (new_dentry ''sub'') 0x1ED))) \<and>
   inodes fs_root 1 \<noteq> None \<and>
   (\<exists>sub. sub = 2 \<and>
      dir_entries (snd (snd (wtfs_mkdir fs_root 1 (new_dentry ''sub'') 0x1ED))) sub
        = Some [(''.'', sub), (''..'', 1)] \<and>
      d_inode (fst (snd (wtfs_lookup (snd (snd (wtfs_mkdir fs_root 1 (new_dentry ''sub'') 0x1ED)))
         sub (new_dentry ''..'') 0))) = Some 1 \<and>
      link_count (snd (snd (wtfs_mkdir fs_root 1 (new_dentry ''sub'') 0x1ED))) 1
        = link_count fs_root 1)"
proof -
  let ?s' = "snd (snd (wtfs_mkdir fs_root 1 (new_dentry ''sub'') 0x1ED))"
  let ?d' = "\<lparr>d_name = ''sub'', d_inode = Some 2, d_hashed = False\<rparr>"
  have r: "fst (wtfs_mkdir fs_root 1 (new_dentry ''sub'') 0x1ED) = Inr () \<and>
           fst (snd (wtfs_mkdir fs_root 1 (new_dentry ''sub'') 0x1ED)) = ?d'"
    by (simp add: wtfs_mkdir_def helper_defs state_defs mode_defs)
  then have ok: "wtfs_mkdir fs_root 1 (new_dentry ''sub'') 0x1ED = (Inr (), ?d', ?s')"
    by (simp add: prod_eq_iff)
  have dir: "inodes fs_root 1 \<noteq> None"
    by (simp add: fs_root_def)
  have nz: "(1::nat) \<noteq> 0" by simp
  show ?thesis
    using ok dir
      wtfs_mkdir_dot_entries [OF ok dir nz, of "new_dentry ''..''" 0]
    by (auto simp: new_dentry_def)
qed

text \<open>C7: looking up a name that is absent from a directory succeeds, never fails:
  the dentry is bound with no inode (a negative dentry) and the state is as before.\<close>
theorem wtfs_lookup_absent_name:
  assumes "dir_entries s dir = Some es" and "d_name dentry \<notin> fst ` set es"
  shows "wtfs_lookup s dir dentry flags = (Inr (), d_add dentry None, s) \<and>
         d_inode (d_add dentry None) = None"
  using find_dentry_absent [OF assms]
  by (simp add: wtfs_lookup_def d_add_def)

theorem wtfs_lookup_absent_name_witness:
  "dir_entries fs_root 1 = Some [(''.'', 1), (''..'', 1)] \<and>
   ''f'' \<notin> fst ` set [(''.'', 1 :: nat), (''..'', 1)] \<and>
   wtfs_lookup fs_root 1 (new_dentry ''f'') 0
     = (Inr (), \<lparr>d_name = ''f'', d_inode = None, d_hashed = True\<rparr>, fs_root)"
proof -
  have e: "dir_entries fs_root 1 = Some [(''.'', 1), (''..'', 1)]"
    by (simp add: helper_defs state_defs)
  have a: "d_name (new_dentry ''f'') \<notin> fst ` set [(''.'', 1 :: nat), (''..'', 1)]"
    by (simp add: new_dentry_def)
  show ?thesis
    using e a wtfs_lookup_absent_name [OF e a, of 0]
    by (simp add: new_dentry_def d_add_def)
qed

text \<open>C8: when the entry-remove step fails, unlink returns its error and has changed
  nothing: the link count and the ctime of any inode \<open>t\<close>, the target included, are as
  before.\<close>
theorem wtfs_unlink_remove_failure:
  assumes "wtfs_delete_dentry s dir (d_name dentry) = (Inl e, s1)"
  shows "wtfs_unlink s dir dentry = (Inl e, s) \<and>
         link_count (snd (wtfs_unlink s dir dentry)) t = link_count s t \<and>
         ctime (snd (wtfs_unlink s dir dentry)) t = ctime s t"
  using assms delete_dentry_failure [OF assms]
  by (simp add: wtfs_unlink_def)

theorem wtfs_unlink_remove_failure_witness:
  "wtfs_delete_dentry fs_sub 1 ''gone'' = (Inl NotFound, fs_sub) \<and>
   wtfs_unlink fs_sub 1 \<lparr>d_name = ''gone'', d_inode = Some 2, d_hashed = True\<rparr>
     = (Inl NotFound, fs_sub) \<and>
   link_count (snd (wtfs_unlink fs_sub 1
        \<lparr>d_name = ''gone'', d_inode = Some 2, d_hashed = True\<rparr>)) 2 = Some 1"
proof -
  have d: "wtfs_delete_dentry fs_sub 1
             (d_name \<lparr>d_name = ''gone'', d_inode = Some 2, d_hashed = True\<rparr>)
           = (Inl NotFound, fs_sub)"
    by (simp add: helper_defs state_defs)
  have l: "link_count fs_sub 2 = Some 1"
    by (simp add: helper_defs state_defs)
  show ?thesis
    using d l wtfs_unlink_remove_failure [OF d, of 2]
    by simp
qed

text \<open>C9: the result and the state effects of \<open>wtfs_create\<close> are the same whatever
  the \<open>excl\<close> argument is; the flag is never read, and a \<open>Duplicate\<close> error of create
  is the one the entry-add step returned after the inode was allocated.\<close>
theorem wtfs_create_excl_ignored:
  "wtfs_create s dir dentry mode excl = wtfs_create s dir dentry mode excl' \<and>
   (fst (wtfs_create s dir dentry mode excl) = Inl Duplicate \<longrightarrow>
      (\<exists>vi s1. wtfs_new_inode s dir (mode OR S_IFREG) None 0 = (Inr vi, s1) \<and>
         fst (wtfs_add_dentry s1 dir vi (d_name dentry) (length (d_name dentry)))
           = Inl Duplicate))"
proof
  show "wtfs_create s dir dentry mode excl = wtfs_create s dir dentry mode excl'"
    by (simp add: wtfs_create_def)
next
  show "fst (wtfs_create s dir dentry mode excl) = Inl Duplicate \<longrightarrow>
      (\<exists>vi s1. wtfs_new_inode s dir (mode OR S_IFREG) None 0 = (Inr vi, s1) \<and>
         fst (wtfs_add_dentry s1 dir vi (d_name dentry) (length (d_name dentry)))
           = Inl Duplicate)"
    by (auto simp: wtfs_create_def split: prod.splits sum.splits
          dest: new_inode_failure)
qed

theorem wtfs_create_excl_ignored_witness:
  "fst (wtfs_create fs_root 1 (new_dentry ''..'') 0x1A4 True) = Inl Duplicate \<and>
   wtfs_create fs_root 1 (new_dentry ''..'') 0x1A4 True
     = wtfs_create fs_root 1 (new_dentry ''..'') 0x1A4 False \<and>
   (\<exists>vi s1. wtfs_new_inode fs_root 1 (0x1A4 OR S_IFREG) None 0 = (Inr vi, s1) \<and>
      fst (wtfs_add_dentry s1 1 vi ''..'' (length ''..'')) = Inl Duplicate)"
proof -
  have dup: "fst (wtfs_create fs_root 1 (new_dentry ''..'') 0x1A4 True) = Inl Duplicate"
    by (simp add: wtfs_create_def helper_defs state_defs mode_defs)
  show ?thesis
    using dup wtfs_create_excl_ignored [of fs_root 1 "new_dentry ''..''" "0x1A4" True False]
    by (simp add: new_dentry_def)
qed

text \<open>C10: when the name is found (find returns a non-zero identifier) but getting
  the inode fails, lookup returns that error and the dentry is left as it was, not
  bound: a lookup can fail for a present name.\<close>
theorem wtfs_lookup_iget_failure:
  assumes "wtfs_find_dentry s dir (d_name dentry) \<noteq> 0"
      and "wtfs_iget s (wtfs_find_dentry s dir (d_name dentry)) = (Inl e, s1)"
  shows "wtfs_lookup s dir dentry flags = (Inl e, dentry, s1)"
  using assms by (simp add: wtfs_lookup_def Let_def)

theorem wtfs_lookup_iget_failure_witness:
  "wtfs_find_dentry fs_ghost 1 ''ghost'' = 3 \<and>
   wtfs_iget fs_ghost 3 = (Inl NotFound, fs_ghost) \<and>
   wtfs_lookup fs_ghost 1 (new_dentry ''ghost'') 0
     = (Inl NotFound, new_dentry ''ghost'', fs_ghost)"
proof -
  have f: "wtfs_find_dentry fs_ghost 1 (d_name (new_dentry ''ghost'')) = 3"
    by (simp add: helper_defs state_defs)
  have g: "wtfs_iget fs_ghost 3 = (Inl NotFound, fs_ghost)"
    by (simp add: helper_defs state_defs)
  show ?thesis
    using f g wtfs_lookup_iget_failure [of fs_ghost 1 "new_dentry ''ghost''" NotFound fs_ghost 0]
    by (simp add: new_dentry_def)
qed

end
